theory Spec2Isabelle
  imports Main
begin

section \<open>The catalogue model of \<^verbatim>\<open>src/book.py\<close>\<close>

text \<open>
  The module defines two registries built on \<^verbatim>\<open>Enum\<close>, two value
  classes (\<^verbatim>\<open>LibraryLocation\<close>, \<^verbatim>\<open>BookSeries\<close>),
  three plain enumerations (\<^verbatim>\<open>BookFormat\<close>, \<^verbatim>\<open>BookStatus\<close>,
  \<^verbatim>\<open>BookCondition\<close>) and the \<^verbatim>\<open>Book\<close> dataclass.
  Each method is a HOL function; a \<^verbatim>\<open>raise\<close> is the left summand of
  the result.
\<close>

subsection \<open>Exceptions\<close>

text \<open>
  The exception class and the fixed part of its message. The values interpolated by the
  f-strings of the module are left out of the message.
\<close>

datatype error =
    ValueError string
  | TypeError string
  | KeyError string
  | JSONDecodeError

subsection \<open>Python values\<close>

text \<open>
  The fields of \<^verbatim>\<open>LibraryLocation\<close> and \<^verbatim>\<open>BookSeries\<close>
  are not checked against their annotations, and \<^verbatim>\<open>from_dict\<close> passes on
  whatever the parsed JSON holds. So these values are dynamically typed: the JSON values,
  and the instances of the two registry classes (an instance carries its class and its
  \<^verbatim>\<open>_value_\<close>).
\<close>

datatype float = Finite int int | Infinity bool | NaN

datatype pyclass =
    C_NoneType | C_bool | C_int | C_float | C_str | C_list | C_dict
  | C_Category | C_BookCategory | C_DigitalFormat

datatype pyval =
    PNone
  | PBool bool
  | PInt int
  | PFloat float
  | PStr string
  | PList "pyval list"
  | PDict "(string \<times> pyval) list"
  | PMember pyclass string

fun type_of :: "pyval \<Rightarrow> pyclass" where
  "type_of PNone = C_NoneType"
| "type_of (PBool _) = C_bool"
| "type_of (PInt _) = C_int"
| "type_of (PFloat _) = C_float"
| "type_of (PStr _) = C_str"
| "type_of (PList _) = C_list"
| "type_of (PDict _) = C_dict"
| "type_of (PMember c _) = c"

text \<open>
  \<^verbatim>\<open>bool\<close> is a subclass of \<^verbatim>\<open>int\<close>; the two registry
  classes are subclasses of \<^verbatim>\<open>Category\<close>.
\<close>

definition issubclass :: "pyclass \<Rightarrow> pyclass \<Rightarrow> bool" where
  "issubclass c d =
     (c = d \<or> (c = C_bool \<and> d = C_int)
      \<or> ((c = C_BookCategory \<or> c = C_DigitalFormat) \<and> d = C_Category))"

text \<open>
  What a global name of the module is bound to: a class, or an object that is not a class.
\<close>

datatype binding = Class pyclass | Object pyval

definition isinstance_msg :: string where
  "isinstance_msg = ''isinstance() arg 2 must be a type, a tuple of types, or a union''"

text \<open>
  \<^verbatim>\<open>isinstance(obj, classinfo)\<close>: with a class it tests the type of the
  object; with an object that is neither a class nor a tuple of classes it raises
  \<^verbatim>\<open>TypeError\<close>.
\<close>

definition isinstance :: "pyval \<Rightarrow> binding \<Rightarrow> error + bool" where
  "isinstance obj classinfo =
     (case classinfo of
        Class c \<Rightarrow> Inr (issubclass (type_of obj) c)
      | Object _ \<Rightarrow> Inl (TypeError isinstance_msg))"

text \<open>
  \<^verbatim>\<open>data[key]\<close> with a string key: a dictionary gives the value or raises
  \<^verbatim>\<open>KeyError\<close>; no other value of this model can be subscripted by a string.
\<close>

definition getitem :: "pyval \<Rightarrow> string \<Rightarrow> error + pyval" where
  "getitem data key =
     (case data of
        PDict kvs \<Rightarrow> (case map_of kvs key of Some v \<Rightarrow> Inr v | None \<Rightarrow> Inl (KeyError key))
      | _ \<Rightarrow> Inl (TypeError ''subscript''))"

text \<open>The integer an \<^verbatim>\<open>int\<close> instance stands for in a comparison.\<close>

fun int_value :: "pyval \<Rightarrow> int" where
  "int_value (PInt n) = n"
| "int_value (PBool b) = (if b then 1 else 0)"
| "int_value _ = 0"

text \<open>
  \<^verbatim>\<open>str.lower\<close> on strings of ASCII characters: the letters A to Z go to
  a to z and every other character stays. Python's method also lowers letters outside
  ASCII (U+212A KELVIN SIGN becomes \<open>k\<close>); strings are byte strings here, and the
  model stands for the method on ASCII strings only (\<open>is_ascii\<close>). Every label
  of the module is ASCII.
\<close>

definition is_ascii :: "string \<Rightarrow> bool" where
  "is_ascii s = list_all (\<lambda>c. (of_char c :: nat) < 128) s"

definition lower_char :: "char \<Rightarrow> char" where
  "lower_char c =
     (let n = (of_char c :: nat) in if 65 \<le> n \<and> n \<le> 90 then char_of (n + 32) else c)"

definition lower :: "string \<Rightarrow> string" where
  "lower s = map lower_char s"

subsection \<open>The category registry\<close>

definition VALID_CATEGORIES :: "string list" where
  "VALID_CATEGORIES = [
    ''Action/Adventure fiction'', ''Children's fiction'', ''Classic fiction'',
    ''Contemporary fiction'', ''Fantasy'', ''Dark fantasy'', ''Fairy tales'', ''Folktales'',
    ''Heroic fantasy'', ''High fantasy'', ''Historical fantasy'', ''Low fantasy'',
    ''Magical realism'', ''Mythic fantasy'', ''Urban fantasy'', ''Graphic novel'',
    ''Historical fiction'', ''Horror'', ''Body horror'', ''Comedy horror'',
    ''Gothic horror'', ''Lovecraftian/Cosmic horror'', ''Paranormal horror'',
    ''Post-apocalyptic horror'', ''Psychological horror'', ''Quiet horror'', ''Slasher'',
    ''LGBTQ+'', ''Literary fiction'', ''Mystery'', ''Caper'', ''Cozy mystery'',
    ''Gumshoe/Detective mystery'', ''Historical mystery'', ''Howdunnits'',
    ''Locked room mystery'', ''Noir'', ''Procedural/Hard-boiled mystery'',
    ''Supernatural mystery'', ''New adult'', ''Romance'', ''Contemporary romance'',
    ''Dark romance'', ''Erotic romance'', ''Fantasy romance (Romantasy)'',
    ''Gothic romance'', ''Historical romance'', ''Paranormal romance'', ''Regency'',
    ''Romantic comedy'', ''Romantic suspense'', ''Sci-fi romance'', ''Satire'',
    ''Science fiction'', ''Apocalyptic sci-fi'', ''Colonization sci-fi'', ''Hard sci-fi'',
    ''Military sci-fi'', ''Mind uploading sci-fi'', ''Parallel world sci-fi'',
    ''Soft sci-fi'', ''Space opera'', ''Space western'', ''Steampunk'', ''Short story'',
    ''Thriller'', ''Action thriller'', ''Conspiracy thriller'', ''Disaster thriller'',
    ''Espionage thriller'', ''Forensic thriller'', ''Historical thriller'',
    ''Legal thriller'', ''Paranormal thriller'', ''Psychological thriller'',
    ''Religious thriller'', ''Western'', ''Women's fiction'', ''Young adult'',
    ''Art & photography'', ''Autobiography/Memoir'', ''Biography'', ''Essays'',
    ''Food & drink'', ''History'', ''How-To/Guides'', ''Humanities & social sciences'',
    ''Humor'', ''Parenting'', ''Philosophy'', ''Religion & spirituality'',
    ''Science & technology'', ''Self-help'', ''Travel'', ''True crime'']"

text \<open>
  \<^verbatim>\<open>Category._missing_(cls, value)\<close>. The loop runs over the members of
  the class, given here as a list; the result \<open>None\<close> is Python's
  \<^verbatim>\<open>None\<close>.
\<close>

fun member_value :: "pyval \<Rightarrow> string option" where
  "member_value (PMember _ v) = Some v"
| "member_value _ = None"

definition Category_missing :: "pyval list \<Rightarrow> pyval \<Rightarrow> pyval option" where
  "Category_missing cls value =
     (case value of
        PStr s \<Rightarrow>
          find (\<lambda>member. case member_value member of
                            Some v \<Rightarrow> lower v = lower s | None \<Rightarrow> False) cls
      | _ \<Rightarrow> None)"

text \<open>\<^verbatim>\<open>BookCategory.__new__(cls, category)\<close>, as the class body writes it.\<close>

definition BookCategory_new :: "string \<Rightarrow> error + pyval" where
  "BookCategory_new category =
     (if category \<notin> set VALID_CATEGORIES then Inl (ValueError ''Invalid category'')
      else Inr (PMember C_BookCategory category))"

text \<open>
  Calling an enumeration class with a value, \<^verbatim>\<open>cls(value)\<close>. The
  metaclass keeps the \<^verbatim>\<open>__new__\<close> of the class body for the creation of
  the members that the body declares, and installs the lookup by value in its place
  (\<^verbatim>\<open>Enum.__new__\<close> of the standard library, here as of Python 3.11): an
  instance is returned as it is, then a member with that value, then a class without
  members raises, then the \<^verbatim>\<open>_missing_\<close> hook is asked, and
  \<^verbatim>\<open>None\<close> from the hook raises \<^verbatim>\<open>ValueError\<close>.
\<close>

definition Enum_call :: "pyclass \<Rightarrow> pyval list \<Rightarrow> pyval \<Rightarrow> error + pyval" where
  "Enum_call cls members value =
     (if type_of value = cls then Inr value
      else case (case value of
                   PStr s \<Rightarrow> find (\<lambda>m. member_value m = Some s) members
                 | _ \<Rightarrow> None) of
        Some m \<Rightarrow> Inr m
      | None \<Rightarrow>
          if members = [] then Inl (TypeError ''has no members defined'')
          else (case Category_missing members value of
                  Some m \<Rightarrow> Inr m
                | None \<Rightarrow> Inl (ValueError ''is not a valid member'')))"

text \<open>
  The body of \<^verbatim>\<open>class BookCategory(Category)\<close> declares no member.
\<close>

definition BookCategory_members :: "pyval list" where
  "BookCategory_members = []"

definition BookCategory_call :: "string \<Rightarrow> error + pyval" where
  "BookCategory_call category = Enum_call C_BookCategory BookCategory_members (PStr category)"

text \<open>
  A comprehension stops at the first element whose expression raises.
\<close>

fun comprehension :: "('a \<Rightarrow> error + 'b) \<Rightarrow> 'a list \<Rightarrow> error + 'b list" where
  "comprehension f [] = Inr []"
| "comprehension f (x # xs) =
     (case f x of
        Inl e \<Rightarrow> Inl e
      | Inr y \<Rightarrow> (case comprehension f xs of Inl e \<Rightarrow> Inl e | Inr ys \<Rightarrow> Inr (y # ys)))"

text \<open>
  \<^verbatim>\<open>create_categories\<close>:
  \<^verbatim>\<open>{category: cls(category) for category in VALID_CATEGORIES}\<close>. What the
  call \<^verbatim>\<open>cls(category)\<close> does is the parameter \<open>cls\<close>: it is
  \<open>BookCategory_call\<close> under the metaclass of the standard library, and
  \<open>BookCategory_new\<close> if the call is read as running the
  \<^verbatim>\<open>__new__\<close> of the class body.
\<close>

definition create_categories :: "(string \<Rightarrow> error + pyval) \<Rightarrow> error + pyval" where
  "create_categories cls =
     (case comprehension
             (\<lambda>category. case cls category of Inl e \<Rightarrow> Inl e | Inr m \<Rightarrow> Inr (category, m))
             VALID_CATEGORIES of
        Inl e \<Rightarrow> Inl e
      | Inr kvs \<Rightarrow> Inr (PDict kvs))"

text \<open>
  Line 161, \<^verbatim>\<open>BookCategory = BookCategory.create_categories()\<close>: the
  binding of the global name \<^verbatim>\<open>BookCategory\<close> from there on, or the
  exception that ends the execution of the module.
\<close>

definition BookCategory_global :: "(string \<Rightarrow> error + pyval) \<Rightarrow> error + binding" where
  "BookCategory_global cls =
     (case create_categories cls of Inl e \<Rightarrow> Inl e | Inr d \<Rightarrow> Inr (Object d))"

subsection \<open>\<^verbatim>\<open>LibraryLocation\<close>\<close>

record LibraryLocation =
  category :: pyval
  shelf :: pyval

text \<open>
  \<^verbatim>\<open>__post_init__\<close>. The name \<^verbatim>\<open>BookCategory\<close> is looked up
  among the globals of the module when the method runs; its binding is the first argument.
\<close>

definition LibraryLocation_post_init :: "binding \<Rightarrow> LibraryLocation \<Rightarrow> error + unit" where
  "LibraryLocation_post_init BookCategory self =
     (case isinstance (category self) BookCategory of
        Inl e \<Rightarrow> Inl e
      | Inr is_category \<Rightarrow>
          if \<not> is_category then Inl (ValueError ''Invalid category'')
          else (case isinstance (shelf self) (Class C_int) of
                  Inl e \<Rightarrow> Inl e
                | Inr is_int \<Rightarrow>
                    if \<not> is_int \<or> int_value (shelf self) < 1
                    then Inl (ValueError ''Invalid shelf number'')
                    else Inr ()))"

text \<open>
  The constructor that \<^verbatim>\<open>@dataclass\<close> generates stores the two arguments
  and calls \<^verbatim>\<open>__post_init__\<close>; the instance is returned only if that
  returns.
\<close>

definition LibraryLocation_init :: "binding \<Rightarrow> pyval \<Rightarrow> pyval \<Rightarrow> error + LibraryLocation" where
  "LibraryLocation_init BookCategory c s =
     (let self = \<lparr>category = c, shelf = s\<rparr> in
      case LibraryLocation_post_init BookCategory self of
        Inl e \<Rightarrow> Inl e
      | Inr _ \<Rightarrow> Inr self)"

text \<open>
  The constructor as a caller of the module reaches it: after the module has run line 161.
\<close>

definition LibraryLocation_create ::
  "(string \<Rightarrow> error + pyval) \<Rightarrow> pyval \<Rightarrow> pyval \<Rightarrow> error + LibraryLocation" where
  "LibraryLocation_create cls c s =
     (case BookCategory_global cls of
        Inl e \<Rightarrow> Inl e
      | Inr BookCategory \<Rightarrow> LibraryLocation_init BookCategory c s)"

text \<open>\<^verbatim>\<open>asdict(self)\<close>\<close>

definition LibraryLocation_dict_representation :: "LibraryLocation \<Rightarrow> pyval" where
  "LibraryLocation_dict_representation self =
     PDict [(''category'', category self), (''shelf'', shelf self)]"

text \<open>
  \<^verbatim>\<open>json.dumps\<close> and \<^verbatim>\<open>json.loads\<close> belong to the standard
  library; they are the parameters \<open>dumps\<close> and \<open>loads\<close>.
\<close>

definition LibraryLocation_json_representation ::
  "(pyval \<Rightarrow> error + string) \<Rightarrow> LibraryLocation \<Rightarrow> error + string" where
  "LibraryLocation_json_representation dumps self =
     dumps (LibraryLocation_dict_representation self)"

definition LibraryLocation_from_dict :: "binding \<Rightarrow> pyval \<Rightarrow> error + LibraryLocation" where
  "LibraryLocation_from_dict BookCategory data =
     (case getitem data ''category'' of
        Inl e \<Rightarrow> Inl e
      | Inr c \<Rightarrow>
          (case getitem data ''shelf'' of
             Inl e \<Rightarrow> Inl e
           | Inr s \<Rightarrow> LibraryLocation_init BookCategory c s))"

definition LibraryLocation_from_json ::
  "(string \<Rightarrow> error + pyval) \<Rightarrow> binding \<Rightarrow> string \<Rightarrow> error + LibraryLocation" where
  "LibraryLocation_from_json loads BookCategory json_str =
     (case loads json_str of
        Inl e \<Rightarrow> Inl e
      | Inr data \<Rightarrow> LibraryLocation_from_dict BookCategory data)"

text \<open>
  The two class methods as a caller of the module reaches them: like the constructor,
  after the module has run line 161.
\<close>

definition LibraryLocation_from_dict_module ::
  "(string \<Rightarrow> error + pyval) \<Rightarrow> pyval \<Rightarrow> error + LibraryLocation" where
  "LibraryLocation_from_dict_module cls data =
     (case BookCategory_global cls of
        Inl e \<Rightarrow> Inl e
      | Inr BookCategory \<Rightarrow> LibraryLocation_from_dict BookCategory data)"

definition LibraryLocation_from_json_module ::
  "(string \<Rightarrow> error + pyval) \<Rightarrow> (string \<Rightarrow> error + pyval) \<Rightarrow> string
     \<Rightarrow> error + LibraryLocation" where
  "LibraryLocation_from_json_module loads cls json_str =
     (case BookCategory_global cls of
        Inl e \<Rightarrow> Inl e
      | Inr BookCategory \<Rightarrow> LibraryLocation_from_json loads BookCategory json_str)"

subsection \<open>\<^verbatim>\<open>BookSeries\<close>\<close>

record BookSeries =
  series :: pyval
  number :: pyval

definition BookSeries_dict_representation :: "BookSeries \<Rightarrow> pyval" where
  "BookSeries_dict_representation self =
     PDict [(''series'', series self), (''number'', number self)]"

definition BookSeries_json_representation ::
  "(pyval \<Rightarrow> error + string) \<Rightarrow> BookSeries \<Rightarrow> error + string" where
  "BookSeries_json_representation dumps self = dumps (BookSeries_dict_representation self)"

definition BookSeries_from_dict :: "pyval \<Rightarrow> error + BookSeries" where
  "BookSeries_from_dict data =
     (case getitem data ''series'' of
        Inl e \<Rightarrow> Inl e
      | Inr s \<Rightarrow>
          (case getitem data ''number'' of
             Inl e \<Rightarrow> Inl e
           | Inr n \<Rightarrow> Inr \<lparr>series = s, number = n\<rparr>))"

definition BookSeries_from_json :: "(string \<Rightarrow> error + pyval) \<Rightarrow> string \<Rightarrow> error + BookSeries" where
  "BookSeries_from_json loads json_str =
     (case loads json_str of Inl e \<Rightarrow> Inl e | Inr data \<Rightarrow> BookSeries_from_dict data)"

text \<open>
  The composition \<^verbatim>\<open>from_json(v.json_representation)\<close> of the round
  trip, for both classes.
\<close>

definition LibraryLocation_round_trip ::
  "(pyval \<Rightarrow> error + string) \<Rightarrow> (string \<Rightarrow> error + pyval) \<Rightarrow> binding
     \<Rightarrow> LibraryLocation \<Rightarrow> error + LibraryLocation" where
  "LibraryLocation_round_trip dumps loads BookCategory v =
     (case LibraryLocation_json_representation dumps v of
        Inl e \<Rightarrow> Inl e
      | Inr json_str \<Rightarrow> LibraryLocation_from_json loads BookCategory json_str)"

definition BookSeries_round_trip ::
  "(pyval \<Rightarrow> error + string) \<Rightarrow> (string \<Rightarrow> error + pyval) \<Rightarrow> BookSeries
     \<Rightarrow> error + BookSeries" where
  "BookSeries_round_trip dumps loads v =
     (case BookSeries_json_representation dumps v of
        Inl e \<Rightarrow> Inl e
      | Inr json_str \<Rightarrow> BookSeries_from_json loads json_str)"

subsection \<open>\<^verbatim>\<open>BookFormat\<close>, \<^verbatim>\<open>BookStatus\<close>, \<^verbatim>\<open>BookCondition\<close>\<close>

datatype BookFormat = HARDCOVER | PAPERBACK | AUDIOBOOK | EBOOK

datatype BookStatus = AVAILABLE | CHECKED_OUT | ON_HOLD | IN_REPAIR

datatype BookCondition = NEW | EXCELLENT | GOOD | FAIR | POOR

text \<open>\<^verbatim>\<open>return self in {BookFormat.HARDCOVER, BookFormat.PAPERBACK}\<close>\<close>

definition is_physical :: "BookFormat \<Rightarrow> bool" where
  "is_physical self = (self \<in> {HARDCOVER, PAPERBACK})"

text \<open>
  \<^verbatim>\<open>list(cls)\<close> of an enumeration is the list of its members in the
  order of their definition.
\<close>

definition BookStatus_members :: "BookStatus list" where
  "BookStatus_members = [AVAILABLE, CHECKED_OUT, ON_HOLD, IN_REPAIR]"

definition BookCondition_members :: "BookCondition list" where
  "BookCondition_members = [NEW, EXCELLENT, GOOD, FAIR, POOR]"

definition get_valid_statuses :: "BookFormat \<Rightarrow> BookStatus list" where
  "get_valid_statuses book_format =
     (if is_physical book_format then BookStatus_members else [AVAILABLE])"

definition get_valid_conditions :: "BookFormat \<Rightarrow> BookCondition list" where
  "get_valid_conditions book_format =
     (if is_physical book_format then BookCondition_members else [NEW])"

subsection \<open>\<^verbatim>\<open>Book\<close>\<close>

text \<open>
  \<^verbatim>\<open>datetime.date\<close> and \<^verbatim>\<open>datetime.timedelta\<close>. A
  \<^verbatim>\<open>timedelta\<close> stores days, seconds and microseconds, normalised by its
  constructor so that \<open>0 \<le> seconds < 86400\<close> and
  \<open>0 \<le> microseconds < 1000000\<close>; the attribute
  \<^verbatim>\<open>.seconds\<close> is the stored seconds field.
\<close>

record date =
  year :: int
  month :: int
  day :: int

record timedelta =
  days :: int
  seconds :: int
  microseconds :: int

text \<open>
  \<^verbatim>\<open>timedelta(days=d, seconds=s, microseconds=us)\<close> with integer
  arguments, and the whole seconds of \<^verbatim>\<open>total_seconds()\<close>.
\<close>

definition timedelta_new :: "int \<Rightarrow> int \<Rightarrow> int \<Rightarrow> timedelta" where
  "timedelta_new d s us =
     (let total_us = (d * 86400 + s) * 1000000 + us;
          total_s = total_us div 1000000
      in \<lparr>days = total_s div 86400, seconds = total_s mod 86400,
          microseconds = total_us mod 1000000\<rparr>)"

definition total_whole_seconds :: "timedelta \<Rightarrow> int" where
  "total_whole_seconds td = days td * 86400 + seconds td"

record Book =
  title :: string
  authors :: "string list"
  isbn :: string
  publication_date :: date
  publisher :: string
  edition :: int
  genres :: "string list"
  number_of_pages :: int
  language :: string
  format :: BookFormat
  summary :: string
  cover_image_url :: string
  current_status :: BookStatus
  location_in_library :: "LibraryLocation option"
  date_added :: date
  purchase_price :: float
  replacement_cost :: float
  dewey_decimal :: string
  book_keywords :: "string list"
  reading_level :: string
  series_name_and_num :: "BookSeries option"
  orig_pub_date :: "date option"
  translator :: "string option"
  illustrator :: "string option"
  condition :: BookCondition
  number_of_times_checked_out :: int
  user_ratings :: "(string \<times> int) list"
  awards :: "string list"
  barcode_number :: string
  date_available :: "date option"
  digital_file_format :: "pyval option"
  digital_file_size :: "float option"
  audiobook_length :: "timedelta option"

text \<open>
  The fields of the class body in their order (the record names the field
  \<^verbatim>\<open>keywords\<close> \<open>book_keywords\<close>), each with whether it has a default
  (\<^verbatim>\<open>= ...\<close> or \<^verbatim>\<open>field(default_factory=...)\<close>).
\<close>

definition Book_fields :: "(string \<times> bool) list" where
  "Book_fields = [
    (''title'', False), (''authors'', True), (''isbn'', False),
    (''publication_date'', False), (''publisher'', False), (''edition'', False),
    (''genres'', True), (''number_of_pages'', False), (''language'', False),
    (''format'', False), (''summary'', False), (''cover_image_url'', False),
    (''current_status'', False), (''location_in_library'', True), (''date_added'', False),
    (''purchase_price'', False), (''replacement_cost'', False), (''dewey_decimal'', False),
    (''keywords'', True), (''reading_level'', False), (''series_name_and_num'', True),
    (''orig_pub_date'', True), (''translator'', True), (''illustrator'', True),
    (''condition'', False), (''number_of_times_checked_out'', True),
    (''user_ratings'', True), (''awards'', True), (''barcode_number'', False),
    (''date_available'', True), (''digital_file_format'', True),
    (''digital_file_size'', True), (''audiobook_length'', True)]"

definition LibraryLocation_fields :: "(string \<times> bool) list" where
  "LibraryLocation_fields = [(''category'', False), (''shelf'', False)]"

definition BookSeries_fields :: "(string \<times> bool) list" where
  "BookSeries_fields = [(''series'', False), (''number'', False)]"

text \<open>
  What \<^verbatim>\<open>@dataclass\<close> does with the fields when it builds
  \<^verbatim>\<open>__init__\<close> (the loop over \<^verbatim>\<open>std_fields\<close> with the flag
  \<^verbatim>\<open>seen_default\<close> in \<^verbatim>\<open>dataclasses.py\<close>): a field
  without a default after one with a default raises \<^verbatim>\<open>TypeError\<close>, and
  the class statement does not complete.
\<close>

definition repr_str :: "string \<Rightarrow> string" where
  "repr_str s = [CHR 0x27] @ s @ [CHR 0x27]"

fun init_fn :: "bool \<Rightarrow> (string \<times> bool) list \<Rightarrow> error + unit" where
  "init_fn seen_default [] = Inr ()"
| "init_fn seen_default ((name, has_default) # fs) =
     (if has_default then init_fn True fs
      else if seen_default
      then Inl (TypeError (''non-default argument '' @ repr_str name
                           @ '' follows default argument''))
      else init_fn seen_default fs)"

definition dataclass :: "(string \<times> bool) list \<Rightarrow> error + unit" where
  "dataclass fs = init_fn False fs"

text \<open>\<^verbatim>\<open>Book.__post_init__\<close>\<close>

definition Book_post_init :: "Book \<Rightarrow> error + unit" where
  "Book_post_init self =
     (let valid_statuses = get_valid_statuses (format self) in
      if current_status self \<notin> set valid_statuses
      then Inl (ValueError ''Invalid status for book format'')
      else Inr ())"

text \<open>
  The generated constructor stores the fields and calls \<^verbatim>\<open>__post_init__\<close>.
\<close>

definition Book_init :: "Book \<Rightarrow> error + Book" where
  "Book_init self =
     (case Book_post_init self of Inl e \<Rightarrow> Inl e | Inr _ \<Rightarrow> Inr self)"

text \<open>
  Constructing a \<^verbatim>\<open>Book\<close> through the module: the class statement has to
  complete before the constructor exists. The class statement is taken on its own
  here, apart from the lines of the module that run before it.
\<close>

definition Book_create :: "Book \<Rightarrow> error + Book" where
  "Book_create self =
     (case dataclass Book_fields of Inl e \<Rightarrow> Inl e | Inr _ \<Rightarrow> Book_init self)"

text \<open>
  \<^verbatim>\<open>Book.set_status\<close>. The method mutates the book; the model returns the
  result of the call together with the book after it. The \<^verbatim>\<open>raise\<close>
  comes before the assignment.
\<close>

definition set_status :: "Book \<Rightarrow> BookStatus \<Rightarrow> (error + unit) \<times> Book" where
  "set_status self new_status =
     (let valid_statuses = get_valid_statuses (format self) in
      if new_status \<notin> set valid_statuses
      then (Inl (ValueError ''Cannot set status''), self)
      else (Inr (), self\<lparr>current_status := new_status\<rparr>))"

text \<open>
  A sequence of \<^verbatim>\<open>set_status\<close> calls on one book; a call that raises is
  caught by the caller and the next call follows.
\<close>

fun set_statuses :: "Book \<Rightarrow> BookStatus list \<Rightarrow> Book" where
  "set_statuses self [] = self"
| "set_statuses self (n # ns) = set_statuses (snd (set_status self n)) ns"

text \<open>
  The format specification \<^verbatim>\<open>02d\<close>: decimal digits, zero-padded to width 2,
  the sign counted in the width.
\<close>

definition digit_char :: "nat \<Rightarrow> char" where
  "digit_char d = char_of (48 + d)"

fun decimal :: "nat \<Rightarrow> string" where
  "decimal n = (if n < 10 then [digit_char n] else decimal (n div 10) @ [digit_char (n mod 10)])"

definition format_02d :: "int \<Rightarrow> string" where
  "format_02d n =
     (if n < 0 then CHR ''-'' # decimal (nat (- n))
      else if n < 10 then CHR ''0'' # decimal (nat n)
      else decimal (nat n))"

text \<open>\<^verbatim>\<open>divmod\<close> on integers: floor division and its remainder.\<close>

definition divmod_int :: "int \<Rightarrow> int \<Rightarrow> int \<times> int" where
  "divmod_int a b = (a div b, a mod b)"

text \<open>\<^verbatim>\<open>Book.format_audiobook_length\<close>\<close>

definition format_audiobook_length :: "Book \<Rightarrow> string" where
  "format_audiobook_length self =
     (case audiobook_length self of
        None \<Rightarrow> ''N/A''
      | Some length_td \<Rightarrow>
          (let (hours, remainder) = divmod_int (seconds length_td) 3600;
               (minutes, secs) = divmod_int remainder 60
           in format_02d hours @ '':'' @ format_02d minutes @ '':'' @ format_02d secs))"

subsection \<open>Concrete inputs\<close>

text \<open>
  A book with every field given, of a chosen format, status, condition and audio length;
  the properties below are evaluated on instances of it.
\<close>

definition example_book ::
  "BookFormat \<Rightarrow> BookStatus \<Rightarrow> BookCondition \<Rightarrow> timedelta option \<Rightarrow> Book" where
  "example_book f s c len =
     \<lparr>title = ''Dune'', authors = [''Frank Herbert''], isbn = ''9780441013593'',
      publication_date = \<lparr>year = 1965, month = 8, day = 1\<rparr>,
      publisher = ''Chilton Books'', edition = 1, genres = [''Science fiction''],
      number_of_pages = 412, language = ''English'', format = f,
      summary = ''A desert planet'', cover_image_url = ''covers/dune.png'',
      current_status = s, location_in_library = None,
      date_added = \<lparr>year = 2024, month = 1, day = 15\<rparr>,
      purchase_price = Finite 25 0, replacement_cost = Finite 30 0,
      dewey_decimal = ''813.54'', book_keywords = [''desert'', ''spice''],
      reading_level = ''Adult'', series_name_and_num = None, orig_pub_date = None,
      translator = None, illustrator = None, condition = c,
      number_of_times_checked_out = 0, user_ratings = [(''reader1'', 5)],
      awards = [''Hugo''], barcode_number = ''0001'', date_available = None,
      digital_file_format = None, digital_file_size = None, audiobook_length = len\<rparr>"

section \<open>Properties\<close>

subsection \<open>The format policy\<close>

lemma BookStatus_members_all: "set BookStatus_members = UNIV"
proof -
  have "s \<in> set BookStatus_members" for s
    by (cases s) (simp_all add: BookStatus_members_def)
  then show ?thesis by blast
qed

lemma BookCondition_members_all: "set BookCondition_members = UNIV"
proof -
  have "c \<in> set BookCondition_members" for c
    by (cases c) (simp_all add: BookCondition_members_def)
  then show ?thesis by blast
qed

lemma physical_statuses: "is_physical f \<Longrightarrow> t \<in> set (get_valid_statuses f)"
  using BookStatus_members_all by (simp add: get_valid_statuses_def)

lemma digital_statuses:
  "\<not> is_physical f \<Longrightarrow> t \<in> set (get_valid_statuses f) \<longleftrightarrow> t = AVAILABLE"
  by (simp add: get_valid_statuses_def)

text \<open>
  Claim C4. The two physical formats (Hardcover, Paperback) get all four statuses and all
  five conditions, in the order of definition; Audiobook and E-book get exactly
  \<open>[AVAILABLE]\<close> and \<open>[NEW]\<close>. Both functions return a list for each
  of the four formats and have no error result.
\<close>

theorem format_policy_tables:
  "is_physical HARDCOVER \<and> is_physical PAPERBACK
   \<and> \<not> is_physical AUDIOBOOK \<and> \<not> is_physical EBOOK
   \<and> get_valid_statuses HARDCOVER = [AVAILABLE, CHECKED_OUT, ON_HOLD, IN_REPAIR]
   \<and> get_valid_statuses PAPERBACK = [AVAILABLE, CHECKED_OUT, ON_HOLD, IN_REPAIR]
   \<and> get_valid_conditions HARDCOVER = [NEW, EXCELLENT, GOOD, FAIR, POOR]
   \<and> get_valid_conditions PAPERBACK = [NEW, EXCELLENT, GOOD, FAIR, POOR]
   \<and> get_valid_statuses AUDIOBOOK = [AVAILABLE]
   \<and> get_valid_statuses EBOOK = [AVAILABLE]
   \<and> get_valid_conditions AUDIOBOOK = [NEW]
   \<and> get_valid_conditions EBOOK = [NEW]
   \<and> set (get_valid_statuses HARDCOVER) = UNIV
   \<and> set (get_valid_statuses PAPERBACK) = UNIV
   \<and> set (get_valid_conditions HARDCOVER) = UNIV
   \<and> set (get_valid_conditions PAPERBACK) = UNIV"
  using BookStatus_members_all BookCondition_members_all
  by (simp add: get_valid_statuses_def get_valid_conditions_def is_physical_def
      BookStatus_members_def BookCondition_members_def)

subsection \<open>The status of a book\<close>

lemma Book_init_Inr:
  "Book_init b0 = Inr b \<Longrightarrow>
   b = b0 \<and> current_status b \<in> set (get_valid_statuses (format b))"
  by (auto simp: Book_init_def Book_post_init_def Let_def split: if_splits)

lemma set_status_format: "format (snd (set_status b n)) = format b"
  by (simp add: set_status_def Let_def)

lemma set_status_invariant:
  "current_status b \<in> set (get_valid_statuses (format b)) \<Longrightarrow>
   current_status (snd (set_status b n))
     \<in> set (get_valid_statuses (format (snd (set_status b n))))"
  by (simp add: set_status_def Let_def)

lemma set_statuses_format: "format (set_statuses b ns) = format b"
  by (induction ns arbitrary: b) (simp_all add: set_status_format)

lemma set_statuses_invariant:
  "current_status b \<in> set (get_valid_statuses (format b)) \<Longrightarrow>
   current_status (set_statuses b ns)
     \<in> set (get_valid_statuses (format (set_statuses b ns)))"
proof (induction ns arbitrary: b)
  case Nil
  then show ?case by simp
next
  case (Cons n ns)
  from Cons.prems have "current_status (snd (set_status b n))
      \<in> set (get_valid_statuses (format (snd (set_status b n))))"
    by (rule set_status_invariant)
  then show ?case using Cons.IH by simp
qed

lemma example_book_fields:
  "format (example_book f s c len) = f"
  "current_status (example_book f s c len) = s"
  "condition (example_book f s c len) = c"
  "audiobook_length (example_book f s c len) = len"
  by (simp_all add: example_book_def)

lemma example_book_status:
  "(example_book f s c len)\<lparr>current_status := t\<rparr> = example_book f t c len"
  by (simp add: example_book_def)

text \<open>
  Claim C6. \<^verbatim>\<open>set_status(n)\<close> raises exactly when \<open>n\<close> is not among
  the valid statuses of the book's format. When it raises, the book after the call is
  the book before it, field for field. When it returns, the book after the call is the
  book before it with \<open>current_status\<close> replaced by \<open>n\<close>; in both cases
  no field other than \<open>current_status\<close> differs.
\<close>

theorem set_status_guard:
  "((\<exists>e. fst (set_status b n) = Inl e) = (n \<notin> set (get_valid_statuses (format b))))
   \<and> (n \<notin> set (get_valid_statuses (format b)) \<longrightarrow>
        set_status b n = (Inl (ValueError ''Cannot set status''), b))
   \<and> (n \<in> set (get_valid_statuses (format b)) \<longrightarrow>
        set_status b n = (Inr (), b\<lparr>current_status := n\<rparr>))
   \<and> (snd (set_status b n))\<lparr>current_status := current_status b\<rparr> = b"
  by (simp add: set_status_def Let_def)

theorem set_status_guard_witness:
  "IN_REPAIR \<notin> set (get_valid_statuses (format (example_book EBOOK AVAILABLE NEW None)))
   \<and> set_status (example_book EBOOK AVAILABLE NEW None) IN_REPAIR
        = (Inl (ValueError ''Cannot set status''), example_book EBOOK AVAILABLE NEW None)
   \<and> AVAILABLE \<in> set (get_valid_statuses (format (example_book HARDCOVER IN_REPAIR GOOD None)))
   \<and> set_status (example_book HARDCOVER IN_REPAIR GOOD None) AVAILABLE
        = (Inr (), example_book HARDCOVER AVAILABLE GOOD None)"
proof -
  have e: "IN_REPAIR \<notin> set (get_valid_statuses (format (example_book EBOOK AVAILABLE NEW None)))"
    by (simp add: example_book_fields get_valid_statuses_def is_physical_def)
  have h: "AVAILABLE
      \<in> set (get_valid_statuses (format (example_book HARDCOVER IN_REPAIR GOOD None)))"
    by (simp add: example_book_fields physical_statuses is_physical_def)
  show ?thesis
    using e h set_status_guard [of "example_book EBOOK AVAILABLE NEW None" IN_REPAIR]
      set_status_guard [of "example_book HARDCOVER IN_REPAIR GOOD None" AVAILABLE]
    by (simp add: example_book_status)
qed

text \<open>
  Claim C7. Take a book that the constructor returned and any list of
  \<^verbatim>\<open>set_status\<close> calls on it, raising or not. The current status of the
  book is then valid for its format (the empty list is the book as constructed). If the
  format is physical, \<^verbatim>\<open>set_status(t)\<close> returns for every target \<open>t\<close>
  and makes it the current status, so each status is one call away from each other. If
  the format is digital, the status is \<open>AVAILABLE\<close>,
  \<^verbatim>\<open>set_status(AVAILABLE)\<close> leaves the book as it is, and every other
  target raises and leaves the book as it is.
\<close>

theorem status_state_machine:
  assumes "Book_init b0 = Inr b"
  shows "current_status (set_statuses b ns)
           \<in> set (get_valid_statuses (format (set_statuses b ns)))
    \<and> (is_physical (format b) \<longrightarrow>
          set_status (set_statuses b ns) t
            = (Inr (), (set_statuses b ns)\<lparr>current_status := t\<rparr>))
    \<and> (\<not> is_physical (format b) \<longrightarrow>
          current_status (set_statuses b ns) = AVAILABLE
          \<and> set_status (set_statuses b ns) AVAILABLE = (Inr (), set_statuses b ns)
          \<and> (t \<noteq> AVAILABLE \<longrightarrow>
               set_status (set_statuses b ns) t
                 = (Inl (ValueError ''Cannot set status''), set_statuses b ns)))"
proof -
  let ?b = "set_statuses b ns"
  from assms have "current_status b \<in> set (get_valid_statuses (format b))"
    by (simp add: Book_init_Inr)
  then have inv: "current_status ?b \<in> set (get_valid_statuses (format ?b))"
    by (rule set_statuses_invariant)
  have fmt: "format ?b = format b" by (rule set_statuses_format)
  have phys: "set_status ?b t = (Inr (), ?b\<lparr>current_status := t\<rparr>)"
    if "is_physical (format b)"
    using that physical_statuses [of "format b" t] by (simp add: set_status_def Let_def fmt)
  have dig: "current_status ?b = AVAILABLE
      \<and> set_status ?b AVAILABLE = (Inr (), ?b)
      \<and> (t \<noteq> AVAILABLE \<longrightarrow>
           set_status ?b t = (Inl (ValueError ''Cannot set status''), ?b))"
    if d: "\<not> is_physical (format b)"
  proof -
    from inv d have cur: "current_status ?b = AVAILABLE"
      by (simp add: fmt digital_statuses)
    have "?b\<lparr>current_status := AVAILABLE\<rparr> = ?b" using cur by simp
    then show ?thesis using d cur
      by (simp add: set_status_def Let_def fmt digital_statuses)
  qed
  from inv phys dig show ?thesis by blast
qed

theorem status_state_machine_witness:
  "Book_init (example_book HARDCOVER IN_REPAIR GOOD None)
     = Inr (example_book HARDCOVER IN_REPAIR GOOD None)
   \<and> is_physical (format (example_book HARDCOVER IN_REPAIR GOOD None))
   \<and> set_statuses (example_book HARDCOVER IN_REPAIR GOOD None) [CHECKED_OUT, ON_HOLD]
       = example_book HARDCOVER ON_HOLD GOOD None
   \<and> set_status (example_book HARDCOVER ON_HOLD GOOD None) AVAILABLE
       = (Inr (), example_book HARDCOVER AVAILABLE GOOD None)
   \<and> Book_init (example_book EBOOK AVAILABLE NEW None)
       = Inr (example_book EBOOK AVAILABLE NEW None)
   \<and> \<not> is_physical (format (example_book EBOOK AVAILABLE NEW None))
   \<and> set_statuses (example_book EBOOK AVAILABLE NEW None) [IN_REPAIR, AVAILABLE]
       = example_book EBOOK AVAILABLE NEW None
   \<and> set_status (example_book EBOOK AVAILABLE NEW None) IN_REPAIR
       = (Inl (ValueError ''Cannot set status''), example_book EBOOK AVAILABLE NEW None)"
proof -
  let ?h = "example_book HARDCOVER IN_REPAIR GOOD None"
  let ?e = "example_book EBOOK AVAILABLE NEW None"
  have h: "Book_init ?h = Inr ?h"
    by (simp add: Book_init_def Book_post_init_def example_book_fields get_valid_statuses_def
        is_physical_def BookStatus_members_def)
  have e: "Book_init ?e = Inr ?e"
    by (simp add: Book_init_def Book_post_init_def example_book_fields get_valid_statuses_def
        is_physical_def)
  have ph: "is_physical (format ?h)" and pe: "\<not> is_physical (format ?e)"
    by (simp_all add: example_book_fields is_physical_def)
  have sh: "set_statuses ?h [CHECKED_OUT, ON_HOLD] = example_book HARDCOVER ON_HOLD GOOD None"
    by (simp add: set_status_def example_book_fields example_book_status
        get_valid_statuses_def is_physical_def BookStatus_members_def)
  have se: "set_statuses ?e [IN_REPAIR, AVAILABLE] = ?e"
    by (simp add: set_status_def example_book_fields example_book_status
        get_valid_statuses_def is_physical_def)
  show ?thesis
    using status_state_machine [OF h, of "[CHECKED_OUT, ON_HOLD]" AVAILABLE]
      status_state_machine [OF e, of "[IN_REPAIR, AVAILABLE]" IN_REPAIR]
      h e ph pe sh se
    by (simp add: example_book_status)
qed

subsection \<open>The condition of a book\<close>

lemma Book_post_init_condition: "Book_post_init (b\<lparr>condition := c\<rparr>) = Book_post_init b"
  by (simp add: Book_post_init_def)

lemma Book_init_condition:
  "Book_init b = Inr b \<Longrightarrow> Book_init (b\<lparr>condition := c\<rparr>) = Inr (b\<lparr>condition := c\<rparr>)"
  by (auto simp: Book_init_def Book_post_init_condition split: sum.splits)

text \<open>
  Claim C2, at the input where the code departs from it. \<open>POOR\<close> is not a valid
  condition of an E-book, and the constructor returns the E-book whose condition is
  \<open>POOR\<close>: \<^verbatim>\<open>__post_init__\<close> reads the status only, and
  \<open>get_valid_conditions\<close> has no caller.
\<close>

theorem Book_init_accepts_invalid_condition:
  "POOR \<notin> set (get_valid_conditions EBOOK)
   \<and> format (example_book EBOOK AVAILABLE POOR None) = EBOOK
   \<and> condition (example_book EBOOK AVAILABLE POOR None) = POOR
   \<and> Book_init (example_book EBOOK AVAILABLE POOR None)
       = Inr (example_book EBOOK AVAILABLE POOR None)"
  by (simp add: get_valid_conditions_def is_physical_def Book_init_def Book_post_init_def
      example_book_fields get_valid_statuses_def)

subsection \<open>The length of an audiobook\<close>

lemma format_audiobook_length_None:
  "audiobook_length b = None \<Longrightarrow> format_audiobook_length b = ''N/A''"
  by (simp add: format_audiobook_length_def)

lemma format_audiobook_length_Some:
  "audiobook_length b = Some td \<Longrightarrow>
   format_audiobook_length b =
     format_02d (seconds td div 3600) @ '':'' @ format_02d (seconds td mod 3600 div 60)
       @ '':'' @ format_02d (seconds td mod 3600 mod 60)"
  by (simp add: format_audiobook_length_def divmod_int_def)

text \<open>
  For a length of less than a day the rendering is that of the total whole seconds.
\<close>

lemma format_audiobook_length_within_a_day:
  assumes "audiobook_length b = Some td" and "days td = 0"
  shows "format_audiobook_length b =
     format_02d (total_whole_seconds td div 3600) @ '':''
       @ format_02d (total_whole_seconds td mod 3600 div 60) @ '':''
       @ format_02d (total_whole_seconds td mod 60)"
proof -
  have "seconds td mod 3600 mod 60 = seconds td mod 60"
    by (simp add: mod_mod_cancel)
  then show ?thesis using assms
    by (simp add: format_audiobook_length_Some total_whole_seconds_def)
qed

lemma timedelta_examples:
  "timedelta_new 0 3661 0 = \<lparr>days = 0, seconds = 3661, microseconds = 0\<rparr>"
  "timedelta_new 0 0 0 = \<lparr>days = 0, seconds = 0, microseconds = 0\<rparr>"
  "timedelta_new 0 90061 0 = \<lparr>days = 1, seconds = 3661, microseconds = 0\<rparr>"
  "timedelta_new 0 3661 999999 = \<lparr>days = 0, seconds = 3661, microseconds = 999999\<rparr>"
  by (simp_all add: timedelta_new_def)

lemma format_02d_examples:
  "format_02d 0 = ''00''" "format_02d 1 = ''01''" "format_02d 25 = ''25''"
  by code_simp+

lemma format_audiobook_length_examples:
  "format_audiobook_length
     (example_book AUDIOBOOK AVAILABLE NEW (Some (timedelta_new 0 3661 0))) = ''01:01:01''"
  "format_audiobook_length
     (example_book AUDIOBOOK AVAILABLE NEW (Some (timedelta_new 0 0 0))) = ''00:00:00''"
  "format_audiobook_length
     (example_book AUDIOBOOK AVAILABLE NEW (Some (timedelta_new 0 3661 999999))) = ''01:01:01''"
  "format_audiobook_length (example_book AUDIOBOOK AVAILABLE NEW None) = ''N/A''"
  by (simp_all add: format_audiobook_length_Some [OF example_book_fields(4)]
      format_audiobook_length_None [OF example_book_fields(4)]
      timedelta_examples format_02d_examples)

text \<open>
  Claim C3, at the input where the code departs from it. A length of 90061 seconds
  (25 hours, 1 minute, 1 second) is stored as 1 day and 3661 seconds; the quotient of
  its total seconds by 3600 renders as \<open>25\<close>, and the method, which reads the
  stored seconds and not the days, returns \<open>01:01:01\<close>.
\<close>

theorem format_audiobook_length_drops_days:
  "timedelta_new 0 90061 0 = \<lparr>days = 1, seconds = 3661, microseconds = 0\<rparr>
   \<and> total_whole_seconds (timedelta_new 0 90061 0) = 90061
   \<and> format_02d (total_whole_seconds (timedelta_new 0 90061 0) div 3600) = ''25''
   \<and> format_audiobook_length
        (example_book AUDIOBOOK AVAILABLE NEW (Some (timedelta_new 0 90061 0))) = ''01:01:01''"
  by (simp add: format_audiobook_length_Some [OF example_book_fields(4)] timedelta_examples
      format_02d_examples total_whole_seconds_def)

subsection \<open>The category registry\<close>

lemma BookCategory_call_fails:
  "BookCategory_call s = Inl (TypeError ''has no members defined'')"
  by (simp add: BookCategory_call_def Enum_call_def BookCategory_members_def)

lemma Category_missing_members:
  "Category_missing (map (PMember k) labels) (PStr s)
     = map_option (PMember k) (find (\<lambda>v. lower v = lower s) labels)"
  by (induction labels) (simp_all add: Category_missing_def)

lemma find_member_value:
  "find (\<lambda>m. member_value m = Some s) (map (PMember k) labels)
     = (if s \<in> set labels then Some (PMember k s) else None)"
  by (induction labels) auto

lemma Fantasy_valid: "''Fantasy'' \<in> set VALID_CATEGORIES"
  by (simp add: VALID_CATEGORIES_def)

lemma fantasy_invalid: "''fantasy'' \<notin> set VALID_CATEGORIES"
  by (simp add: VALID_CATEGORIES_def)

lemma lower_fantasy: "lower ''Fantasy'' = ''fantasy''" "lower ''fantasy'' = ''fantasy''"
  by code_simp+

lemma find_fantasy:
  "find (\<lambda>v. lower v = lower ''fantasy'') VALID_CATEGORIES = Some ''Fantasy''"
  by code_simp

text \<open>
  The hook \<^verbatim>\<open>_missing_\<close> matches without regard to case once the labels
  are members of the class: with them as members, the call resolves \<open>fantasy\<close>.
\<close>

lemma Enum_call_with_members:
  "Enum_call C_BookCategory (map (PMember C_BookCategory) VALID_CATEGORIES) (PStr ''fantasy'')
    = Inr (PMember C_BookCategory ''Fantasy'')"
proof -
  have "VALID_CATEGORIES \<noteq> []" by (simp add: VALID_CATEGORIES_def)
  then show ?thesis
    by (simp add: Enum_call_def find_member_value fantasy_invalid Category_missing_members
        find_fantasy)
qed

text \<open>An ASCII string that matches no label, whatever the case, is not resolved.\<close>

lemma unmatched_label_fails:
  assumes "is_ascii s" and "lower s \<notin> lower ` set VALID_CATEGORIES"
  shows "(\<exists>e. BookCategory_call s = Inl e) \<and> (\<exists>e. BookCategory_new s = Inl e)
    \<and> Category_missing (map (PMember C_BookCategory) VALID_CATEGORIES) (PStr s) = None"
proof -
  from assms(2) have "s \<notin> set VALID_CATEGORIES" by blast
  moreover have "find (\<lambda>v. lower v = lower s) VALID_CATEGORIES = None"
  proof -
    have "lower v \<noteq> lower s" if "v \<in> set VALID_CATEGORIES" for v
      using that assms(2) by (metis imageI)
    then show ?thesis by (simp add: find_None_iff)
  qed
  ultimately show ?thesis
    by (simp add: BookCategory_call_fails BookCategory_new_def Category_missing_members)
qed

lemma comprehension_all_return:
  "(\<And>x. x \<in> set xs \<Longrightarrow> f x = Inr (g x)) \<Longrightarrow> comprehension f xs = Inr (map g xs)"
  by (induction xs) simp_all

lemma create_categories_new:
  "create_categories BookCategory_new
     = Inr (PDict (map (\<lambda>c. (c, PMember C_BookCategory c)) VALID_CATEGORIES))"
proof -
  have "comprehension
          (\<lambda>category. case BookCategory_new category of
                         Inl e \<Rightarrow> Inl e | Inr m \<Rightarrow> Inr (category, m)) VALID_CATEGORIES
        = Inr (map (\<lambda>c. (c, PMember C_BookCategory c)) VALID_CATEGORIES)"
    by (rule comprehension_all_return) (simp add: BookCategory_new_def)
  then show ?thesis by (simp add: create_categories_def)
qed

lemma VALID_CATEGORIES_first:
  "VALID_CATEGORIES = ''Action/Adventure fiction'' # tl VALID_CATEGORIES"
  by (simp add: VALID_CATEGORIES_def)

lemma create_categories_call:
  "create_categories BookCategory_call = Inl (TypeError ''has no members defined'')"
proof -
  have "comprehension
          (\<lambda>category. case BookCategory_call category of
                         Inl e \<Rightarrow> Inl e | Inr m \<Rightarrow> Inr (category, m))
          (''Action/Adventure fiction'' # tl VALID_CATEGORIES)
        = Inl (TypeError ''has no members defined'')"
    by (simp add: BookCategory_call_fails)
  then show ?thesis using VALID_CATEGORIES_first by (simp add: create_categories_def)
qed

lemma map_of_registry:
  "map_of (map (\<lambda>c. (c, PMember C_BookCategory c)) xs) k
     = (if k \<in> set xs then Some (PMember C_BookCategory k) else None)"
  by (induction xs) auto

lemma registry_getitem:
  "getitem (PDict (map (\<lambda>c. (c, PMember C_BookCategory c)) VALID_CATEGORIES)) k
     = (if k \<in> set VALID_CATEGORIES then Inr (PMember C_BookCategory k) else Inl (KeyError k))"
  by (simp add: getitem_def map_of_registry)

text \<open>
  Claim C5, at the input where the code departs from it. The string \<open>fantasy\<close>
  equals the label \<open>Fantasy\<close> without regard to case, and no path of the module
  resolves it: the call of the class raises (the class has no members, so the hook
  \<^verbatim>\<open>_missing_\<close> is never asked), the \<^verbatim>\<open>__new__\<close> of the
  class body raises because it tests \<^verbatim>\<open>category not in VALID_CATEGORIES\<close>
  with the case as given, and the dictionary that line 161 would bind to the name has no
  key \<open>fantasy\<close>.
\<close>

theorem lowercase_label_not_resolved:
  "lower ''fantasy'' = lower ''Fantasy''
   \<and> ''Fantasy'' \<in> set VALID_CATEGORIES
   \<and> BookCategory_call ''fantasy'' = Inl (TypeError ''has no members defined'')
   \<and> BookCategory_new ''fantasy'' = Inl (ValueError ''Invalid category'')
   \<and> getitem (PDict (map (\<lambda>c. (c, PMember C_BookCategory c)) VALID_CATEGORIES)) ''fantasy''
       = Inl (KeyError ''fantasy'')"
  by (simp add: lower_fantasy Fantasy_valid BookCategory_call_fails BookCategory_new_def
      fantasy_invalid registry_getitem)

subsection \<open>Constructing a \<^verbatim>\<open>LibraryLocation\<close>\<close>

lemma isinstance_Object: "isinstance obj (Object d) = Inl (TypeError isinstance_msg)"
  by (simp add: isinstance_def)

lemma LibraryLocation_init_Object:
  "LibraryLocation_init (Object d) c s = Inl (TypeError isinstance_msg)"
  by (simp add: LibraryLocation_init_def LibraryLocation_post_init_def isinstance_Object)

lemma LibraryLocation_from_dict_Object:
  "\<exists>e. LibraryLocation_from_dict (Object d) data = Inl e"
  by (simp add: LibraryLocation_from_dict_def LibraryLocation_init_Object split: sum.split)

lemma LibraryLocation_from_json_Object:
  "\<exists>e. LibraryLocation_from_json loads (Object d) json_str = Inl e"
  using LibraryLocation_from_dict_Object
  by (simp add: LibraryLocation_from_json_def split: sum.split)

lemma BookCategory_global_not_Class: "BookCategory_global cls \<noteq> Inr (Class k)"
  by (simp add: BookCategory_global_def split: sum.split)

lemma BookCategory_global_cases:
  "(\<exists>e. BookCategory_global cls = Inl e) \<or> (\<exists>d. BookCategory_global cls = Inr (Object d))"
  by (simp add: BookCategory_global_def split: sum.split)

lemma LibraryLocation_create_fails: "\<exists>e. LibraryLocation_create cls c s = Inl e"
  using BookCategory_global_cases [of cls]
  by (auto simp: LibraryLocation_create_def LibraryLocation_init_Object)

lemma LibraryLocation_create_new:
  "LibraryLocation_create BookCategory_new c s = Inl (TypeError isinstance_msg)"
  by (simp add: LibraryLocation_create_def BookCategory_global_def create_categories_new
      LibraryLocation_init_Object)

lemma LibraryLocation_create_call:
  "LibraryLocation_create BookCategory_call c s = Inl (TypeError ''has no members defined'')"
  by (simp add: LibraryLocation_create_def BookCategory_global_def create_categories_call)

text \<open>
  What the two checks of \<^verbatim>\<open>__post_init__\<close> do while the name
  \<^verbatim>\<open>BookCategory\<close> is bound to the class, as it is up to line 161.
\<close>

lemma LibraryLocation_init_Class:
  "LibraryLocation_init (Class C_BookCategory) c s =
     (if type_of c \<noteq> C_BookCategory then Inl (ValueError ''Invalid category'')
      else if (type_of s \<noteq> C_int \<and> type_of s \<noteq> C_bool) \<or> int_value s < 1
           then Inl (ValueError ''Invalid shelf number'')
      else Inr \<lparr>category = c, shelf = s\<rparr>)"
  by (auto simp: LibraryLocation_init_def LibraryLocation_post_init_def isinstance_def
      issubclass_def Let_def)

lemma BookCategory_global_call:
  "BookCategory_global BookCategory_call = Inl (TypeError ''has no members defined'')"
  by (simp add: BookCategory_global_def create_categories_call)

lemma LibraryLocation_from_dict_module_call:
  "LibraryLocation_from_dict_module BookCategory_call data
     = Inl (TypeError ''has no members defined'')"
  by (simp add: LibraryLocation_from_dict_module_def BookCategory_global_call)

lemma LibraryLocation_from_json_module_call:
  "LibraryLocation_from_json_module loads BookCategory_call json_str
     = Inl (TypeError ''has no members defined'')"
  by (simp add: LibraryLocation_from_json_module_def BookCategory_global_call)

text \<open>
  Against claim C9 as it is stated. Line 161 does not bind the name
  \<^verbatim>\<open>BookCategory\<close> to a dictionary: the call of the class on the first
  label raises, so \<^verbatim>\<open>create_categories\<close> raises and the module stops
  there. For the registry entry \<open>Fantasy\<close> and shelf 1 the exception of the
  constructor is therefore not the \<^verbatim>\<open>TypeError\<close> of
  \<^verbatim>\<open>isinstance\<close>.
\<close>

theorem line_161_binds_no_dict:
  "create_categories BookCategory_call = Inl (TypeError ''has no members defined'')
   \<and> BookCategory_global BookCategory_call = Inl (TypeError ''has no members defined'')
   \<and> LibraryLocation_create BookCategory_call (PMember C_BookCategory ''Fantasy'') (PInt 1)
       \<noteq> Inl (TypeError isinstance_msg)"
  by (simp add: create_categories_call BookCategory_global_call LibraryLocation_create_call
      isinstance_msg_def)

text \<open>
  Claim C9, amended. Constructing a \<^verbatim>\<open>LibraryLocation\<close> raises for every
  category and every shelf, and \<^verbatim>\<open>from_dict\<close> and
  \<^verbatim>\<open>from_json\<close> raise for every input. The cause is line 161 itself:
  \<^verbatim>\<open>create_categories\<close> calls the class on a label, the class has no
  members, the call raises \<^verbatim>\<open>TypeError\<close>, and the module stops before
  the name is bound to anything else or the class \<^verbatim>\<open>LibraryLocation\<close> is
  defined; that exception is what every attempt to construct ends in. Apart from that:
  whatever the call of the class did, line 161 would never leave the name bound to a
  class, and with the name bound to any object that is not a class the constructor
  raises the \<^verbatim>\<open>TypeError\<close> of \<^verbatim>\<open>isinstance\<close> for every
  category and shelf, and \<^verbatim>\<open>from_dict\<close> and
  \<^verbatim>\<open>from_json\<close> raise for every input.
\<close>

theorem LibraryLocation_never_constructed:
  "BookCategory_global BookCategory_call = Inl (TypeError ''has no members defined'')
   \<and> LibraryLocation_create BookCategory_call c s
       = Inl (TypeError ''has no members defined'')
   \<and> LibraryLocation_from_dict_module BookCategory_call data
       = Inl (TypeError ''has no members defined'')
   \<and> LibraryLocation_from_json_module loads BookCategory_call json_str
       = Inl (TypeError ''has no members defined'')
   \<and> BookCategory_global cls \<noteq> Inr (Class k)
   \<and> (\<exists>e. LibraryLocation_create cls c s = Inl e)
   \<and> LibraryLocation_init (Object d) c s = Inl (TypeError isinstance_msg)
   \<and> (\<exists>e. LibraryLocation_from_dict (Object d) data = Inl e)
   \<and> (\<exists>e. LibraryLocation_from_json loads (Object d) json_str = Inl e)"
  using LibraryLocation_from_dict_Object [of d data]
    LibraryLocation_from_json_Object [of loads d json_str]
    LibraryLocation_create_fails [of cls c s]
  by (simp add: BookCategory_global_call LibraryLocation_create_call
      LibraryLocation_from_dict_module_call LibraryLocation_from_json_module_call
      BookCategory_global_not_Class LibraryLocation_init_Object)

text \<open>
  Claim C8, at the input where the code departs from it. The category is the registry
  entry \<open>Fantasy\<close> and the shelf is the integer 1, and the constructor raises
  \<^verbatim>\<open>TypeError\<close>; with the shelf 0 it raises the same
  \<^verbatim>\<open>TypeError\<close> and not the \<^verbatim>\<open>ValueError\<close> of the shelf
  check, and with a string as the category not that of the category check.
\<close>

theorem LibraryLocation_valid_input_raises:
  "''Fantasy'' \<in> set VALID_CATEGORIES
   \<and> LibraryLocation_create BookCategory_new (PMember C_BookCategory ''Fantasy'') (PInt 1)
       = Inl (TypeError isinstance_msg)
   \<and> LibraryLocation_create BookCategory_call (PMember C_BookCategory ''Fantasy'') (PInt 1)
       = Inl (TypeError ''has no members defined'')
   \<and> LibraryLocation_create BookCategory_new (PMember C_BookCategory ''Fantasy'') (PInt 0)
       = Inl (TypeError isinstance_msg)
   \<and> LibraryLocation_create BookCategory_new (PStr ''no such category'') (PInt 1)
       = Inl (TypeError isinstance_msg)"
  by (simp add: Fantasy_valid LibraryLocation_create_new LibraryLocation_create_call)

subsection \<open>The JSON round trip\<close>

text \<open>
  With \<^verbatim>\<open>json.loads\<close> returning what \<^verbatim>\<open>json.dumps\<close> was
  given, a \<^verbatim>\<open>BookSeries\<close> comes back as it was.
\<close>

lemma BookSeries_round_trip_codec:
  assumes "dumps (BookSeries_dict_representation v) = Inr json_str"
    and "loads json_str = Inr (BookSeries_dict_representation v)"
  shows "BookSeries_round_trip dumps loads v = Inr v"
  using assms
  by (simp add: BookSeries_round_trip_def BookSeries_json_representation_def
      BookSeries_from_json_def BookSeries_from_dict_def BookSeries_dict_representation_def
      getitem_def)

lemma LibraryLocation_round_trip_Object:
  "\<exists>e. LibraryLocation_round_trip dumps loads (Object d) v = Inl e"
  using LibraryLocation_from_json_Object
  by (simp add: LibraryLocation_round_trip_def split: sum.split)

text \<open>
  The dictionary of a location holds the label as a string when it can be written as
  JSON; \<^verbatim>\<open>from_dict\<close> hands that string to the constructor, which wants a
  registry entry, so it raises also while the name is bound to the class.
\<close>

lemma LibraryLocation_from_dict_label:
  "LibraryLocation_from_dict (Class C_BookCategory)
     (PDict [(''category'', PStr label), (''shelf'', n)]) = Inl (ValueError ''Invalid category'')"
  by (simp add: LibraryLocation_from_dict_def getitem_def LibraryLocation_init_Class)

text \<open>
  Claim C1, at the input where the code departs from it. For the location with the
  registry entry \<open>Fantasy\<close> and shelf 1, the round trip
  \<^verbatim>\<open>from_json(v.json_representation)\<close> raises, whatever
  \<^verbatim>\<open>json.dumps\<close> and \<^verbatim>\<open>json.loads\<close> return; and
  \<^verbatim>\<open>from_dict\<close> raises on the dictionary that the JSON text of the
  interface, with the label \<open>Fantasy\<close> and shelf 1, parses to.
\<close>

theorem LibraryLocation_round_trip_raises:
  "(\<exists>e. LibraryLocation_round_trip dumps loads (Object d)
           \<lparr>category = PMember C_BookCategory ''Fantasy'', shelf = PInt 1\<rparr> = Inl e)
   \<and> LibraryLocation_from_dict (Object d)
        (PDict [(''category'', PStr ''Fantasy''), (''shelf'', PInt 1)])
       = Inl (TypeError isinstance_msg)
   \<and> LibraryLocation_from_dict (Class C_BookCategory)
        (PDict [(''category'', PStr ''Fantasy''), (''shelf'', PInt 1)])
       = Inl (ValueError ''Invalid category'')"
  using LibraryLocation_round_trip_Object
  by (simp add: LibraryLocation_from_dict_label)
    (simp add: LibraryLocation_from_dict_def getitem_def LibraryLocation_init_Object)

subsection \<open>The class statement of \<^verbatim>\<open>Book\<close>\<close>

lemma dataclass_Book:
  "dataclass Book_fields
     = Inl (TypeError ''non-default argument 'isbn' follows default argument'')"
  by (simp add: dataclass_def Book_fields_def repr_str_def)

text \<open>The two value classes have no field with a default, and their statements complete.\<close>

lemma dataclass_value_classes:
  "dataclass LibraryLocation_fields = Inr ()" "dataclass BookSeries_fields = Inr ()"
  by (simp_all add: dataclass_def LibraryLocation_fields_def BookSeries_fields_def)

lemma Book_fields_after_default:
  "map fst (filter (\<lambda>(name, has_default). \<not> has_default)
       (dropWhile (\<lambda>(name, has_default). \<not> has_default) Book_fields))
   = [''isbn'', ''publication_date'', ''publisher'', ''edition'', ''number_of_pages'',
      ''language'', ''format'', ''summary'', ''cover_image_url'', ''current_status'',
      ''date_added'', ''purchase_price'', ''replacement_cost'', ''dewey_decimal'',
      ''reading_level'', ''condition'', ''barcode_number'']"
  by (simp add: Book_fields_def)

text \<open>
  Claim C10. The class body of \<^verbatim>\<open>Book\<close> has seventeen fields without a
  default after its first field with a default, the first of them
  \<^verbatim>\<open>isbn\<close> after \<^verbatim>\<open>authors\<close>. The decorator raises
  \<^verbatim>\<open>TypeError\<close> on \<^verbatim>\<open>isbn\<close>, so the class statement does
  not complete, and constructing a \<^verbatim>\<open>Book\<close> fails with that exception for
  every choice of the fields.
\<close>

theorem Book_class_rejected:
  "map fst (filter (\<lambda>(name, has_default). \<not> has_default)
       (dropWhile (\<lambda>(name, has_default). \<not> has_default) Book_fields))
     = [''isbn'', ''publication_date'', ''publisher'', ''edition'', ''number_of_pages'',
        ''language'', ''format'', ''summary'', ''cover_image_url'', ''current_status'',
        ''date_added'', ''purchase_price'', ''replacement_cost'', ''dewey_decimal'',
        ''reading_level'', ''condition'', ''barcode_number'']
   \<and> dataclass Book_fields
       = Inl (TypeError ''non-default argument 'isbn' follows default argument'')
   \<and> Book_create b
       = Inl (TypeError ''non-default argument 'isbn' follows default argument'')"
  by (simp add: Book_create_def dataclass_Book Book_fields_after_default)

end
